theory Spec2Isabelle
  imports Complex_Main "HOL-Library.AList" "HOL-Library.List_Lexorder"
begin

unbundle bit_operations_syntax

section \<open>Python values used by fusebook\<close>

text \<open>
  A Python \<open>str\<close> is a sequence of Unicode code points, so it is a list of naturals; a
  \<open>bytes\<close> object is a sequence of 8-bit values, which is what \<^typ>\<open>char\<close> is in HOL.
  \<open>lit\<close> reads an ASCII literal of the source as a \<open>str\<close>.
\<close>

type_synonym str = "nat list"
type_synonym bytes = "char list"

definition lit :: "string \<Rightarrow> str" where
  "lit s = map of_char s"

text \<open>
  The exceptions the modelled code can raise. \<open>FuseOSError n\<close> carries the errno; the
  others are the Python exceptions of the library calls the code makes.
\<close>

datatype error =
    FuseOSError nat
  | OSError
  | DecodeError
  | AttributeError
  | KeyError
  | TypeError
  | UnicodeEncodeError
  | Base64Error

definition ENOENT :: nat where
  "ENOENT = 2"

text \<open>\<open>"{0}".format(i)\<close> for a non-negative integer: its decimal digits.\<close>

fun format_int :: "nat \<Rightarrow> str" where
  "format_int n = (if n < 10 then [48 + n] else format_int (n div 10) @ [48 + n mod 10])"

declare format_int.simps [simp del]

text \<open>
  \<open>"{0}".format(x)\<close> where \<open>x\<close> is the result of \<open>mimetypes.guess_extension\<close>: a string is
  inserted as it is, and \<open>None\<close> is formatted as the four characters \<open>None\<close>.
\<close>

definition format_opt :: "str option \<Rightarrow> str" where
  "format_opt x = (case x of None \<Rightarrow> lit ''None'' | Some s \<Rightarrow> s)"

text \<open>
  \<open>str.encode("utf-8")\<close>. A surrogate code point raises \<open>UnicodeEncodeError\<close>. A Python
  \<open>str\<close> holds no code point from \<open>0x110000\<close> on, so the last branch is only ever reached
  below that bound.
\<close>

definition encode_cp :: "nat \<Rightarrow> error + bytes" where
  "encode_cp c =
     (if c < 0x80 then Inr [char_of c]
      else if c < 0x800 then Inr [char_of (0xC0 + c div 64), char_of (0x80 + c mod 64)]
      else if 0xD800 \<le> c \<and> c < 0xE000 then Inl UnicodeEncodeError
      else if c < 0x10000 then
        Inr [char_of (0xE0 + c div 4096), char_of (0x80 + (c div 64) mod 64),
             char_of (0x80 + c mod 64)]
      else
        Inr [char_of (0xF0 + c div 262144), char_of (0x80 + (c div 4096) mod 64),
             char_of (0x80 + (c div 64) mod 64), char_of (0x80 + c mod 64)])"

fun encode_utf8 :: "str \<Rightarrow> error + bytes" where
  "encode_utf8 [] = Inr []"
| "encode_utf8 (c # cs) =
     (case encode_cp c of
        Inl e \<Rightarrow> Inl e
      | Inr b \<Rightarrow> (case encode_utf8 cs of Inl e \<Rightarrow> Inl e | Inr bs \<Rightarrow> Inr (b @ bs)))"

text \<open>
  Python's slice \<open>xs[a:b]\<close> for integers \<open>a\<close> and \<open>b\<close>: a negative bound counts from the
  end, every bound is clamped to the sequence, and an empty range gives the empty
  sequence. It never raises.
\<close>

definition slice_bound :: "nat \<Rightarrow> int \<Rightarrow> nat" where
  "slice_bound n i = (if i < 0 then nat (max 0 (i + int n)) else min (nat i) n)"

definition slice :: "'a list \<Rightarrow> int \<Rightarrow> int \<Rightarrow> 'a list" where
  "slice xs a b =
     (let lo = slice_bound (length xs) a; hi = slice_bound (length xs) b
      in take (hi - lo) (drop lo xs))"

section \<open>The decoded notebook\<close>

text \<open>
  A body of a cell or an output as the notebook's JSON holds it: a list of strings, one
  string, or (for a MIME payload such as \<open>application/json\<close>) a value that is neither.
\<close>

datatype source = Lines "str list" | Text str | Object

text \<open>\<open>maybe_join = lambda x: "".join(x) if isinstance(x, list) else x\<close>\<close>

definition maybe_join :: "source \<Rightarrow> source" where
  "maybe_join x = (case x of Lines l \<Rightarrow> Text (concat l) | _ \<Rightarrow> x)"

text \<open>\<open>x.encode("utf-8")\<close> on what \<open>maybe_join\<close> returned: only a \<open>str\<close> has the method.\<close>

definition encode :: "source \<Rightarrow> error + bytes" where
  "encode x = (case x of Text s \<Rightarrow> encode_utf8 s | _ \<Rightarrow> Inl AttributeError)"

text \<open>
  The outputs of a code cell, by \<open>output_type\<close>: \<open>stream\<close> (name, text), \<open>display_data\<close>
  and \<open>execute_result\<close> (the \<open>data\<close> dictionary from MIME type to payload, in the
  dictionary's iteration order), and \<open>error\<close>.
\<close>

datatype nb_output =
    Stream (stream_name: str) (stream_text: source)
  | Display_data (out_data: "(str \<times> source) list")
  | Execute_result (out_data: "(str \<times> source) list")
  | Error_output

text \<open>The cells, by \<open>cell_type\<close>: \<open>markdown\<close>, \<open>code\<close> (with outputs), and \<open>raw\<close>.\<close>

datatype cell =
    Markdown (cell_source: source)
  | Code (cell_source: source) (cell_outputs: "nb_output list")
  | Raw (cell_source: source)

text \<open>
  The node that \<open>nbformat\<close> hands back: \<open>metadata.language_info.file_extension\<close> (absent
  in some notebooks) and the cells.
\<close>

record notebook_node =
  file_extension :: "str option"
  cells :: "cell list"

section \<open>The environment\<close>

text \<open>
  The attributes that the code reads from an \<open>lstat\<close> result and that \<open>getattr\<close> returns.
\<close>

record stat =
  st_atime :: real
  st_ctime :: real
  st_gid :: nat
  st_mode :: nat
  st_mtime :: real
  st_nlink :: nat
  st_size :: nat
  st_uid :: nat

text \<open>
  Everything outside the repository that the code calls, as parameters:
  \<open>Path.is_file\<close>, \<open>Path.is_dir\<close>, \<open>Path.lstat\<close> and \<open>Path.iterdir\<close> (the names of the
  children) of the path with the given string; \<open>open\<close> followed by
  \<open>nbformat.reader.read\<close> and the conversion to format 4; \<open>mimetypes.guess_extension\<close>;
  \<open>base64.decodestring(bytes(x, "ascii"))\<close>; and \<open>os.lseek(fh, offset, 0)\<close> followed by
  \<open>os.read(fh, length)\<close>, as \<open>os_read fh offset length\<close>.
\<close>

record env =
  is_file :: "str \<Rightarrow> bool"
  is_dir :: "str \<Rightarrow> bool"
  lstat :: "str \<Rightarrow> error + stat"
  iterdir :: "str \<Rightarrow> error + str list"
  nbformat_read :: "str \<Rightarrow> error + notebook_node"
  guess_extension :: "str \<Rightarrow> str option"
  decodestring :: "source \<Rightarrow> error + bytes"
  os_read :: "nat \<Rightarrow> int \<Rightarrow> int \<Rightarrow> error + bytes"

section \<open>The part of pathlib that the code uses\<close>

text \<open>
  A pure POSIX path: its root (empty, one separator, or two) and its components. The
  functions follow \<open>pathlib\<close> as it was when the code was written (Python 3.4 to 3.8).
\<close>

datatype path = Path (anchor: str) (parts: "str list")

definition sep :: nat where
  "sep = 47"

definition dot :: nat where
  "dot = 46"

text \<open>\<open>s.split("/")\<close>\<close>

fun split_sep :: "str \<Rightarrow> str list" where
  "split_sep [] = [[]]"
| "split_sep (c # cs) =
     (if c = sep then [] # split_sep cs
      else (case split_sep cs of [] \<Rightarrow> [[c]] | x # xs \<Rightarrow> (c # x) # xs))"

text \<open>\<open>"/".join(xs)\<close>\<close>

fun join_sep :: "str list \<Rightarrow> str" where
  "join_sep [] = []"
| "join_sep [x] = x"
| "join_sep (x # y # ys) = x @ [sep] @ join_sep (y # ys)"

text \<open>
  \<open>Path(s)\<close>: exactly two leading separators are kept as the root \<open>//\<close>, any other
  positive number is the root \<open>/\<close>; empty components and \<open>.\<close> components are dropped.
\<close>

definition parse_path :: "str \<Rightarrow> path" where
  "parse_path s =
     (let rel = dropWhile (\<lambda>c. c = sep) s;
          n = length s - length rel;
          root = (if n = 0 then [] else if n = 2 then [sep, sep] else [sep])
      in Path root (filter (\<lambda>x. x \<noteq> [] \<and> x \<noteq> [dot]) (split_sep rel)))"

definition is_absolute :: "path \<Rightarrow> bool" where
  "is_absolute p = (anchor p \<noteq> [])"

text \<open>
  \<open>Path(*p.parts[1:])\<close> for an absolute \<open>p\<close>: \<open>p.parts[0]\<close> is the root, and the other
  components hold no separator, so the new path is relative with the same components.
\<close>

definition drop_anchor :: "path \<Rightarrow> path" where
  "drop_anchor p = Path [] (parts p)"

text \<open>\<open>a / b\<close>: an absolute \<open>b\<close> replaces \<open>a\<close>, a relative one is appended.\<close>

definition path_join :: "path \<Rightarrow> path \<Rightarrow> path" where
  "path_join a b = (if is_absolute b then b else Path (anchor a) (parts a @ parts b))"

definition path_str :: "path \<Rightarrow> str" where
  "path_str p =
     (if anchor p = [] \<and> parts p = [] then [dot] else anchor p @ join_sep (parts p))"

definition path_parent :: "path \<Rightarrow> path" where
  "path_parent p = (if parts p = [] then p else Path (anchor p) (butlast (parts p)))"

definition path_name :: "path \<Rightarrow> str" where
  "path_name p = (if parts p = [] then [] else last (parts p))"

text \<open>\<open>s.rfind(".")\<close>: the index of the last dot, or \<open>-1\<close>.\<close>

definition rfind_dot :: "str \<Rightarrow> int" where
  "rfind_dot s =
     (if dot \<in> set s
      then int (length s) - 1 - int (length (takeWhile (\<lambda>c. c \<noteq> dot) (rev s)))
      else - 1)"

text \<open>
  \<open>p.suffix\<close>: the final component from its last dot on, unless that dot is its first
  or its last character.
\<close>

definition path_suffix :: "path \<Rightarrow> str" where
  "path_suffix p =
     (let name = path_name p; i = rfind_dot name
      in if 0 < i \<and> i < int (length name) - 1 then drop (nat i) name else [])"

section \<open>FuseNotebook: one notebook as a directory of virtual files\<close>

text \<open>
  What \<open>self.fnames\<close> stores beside the kind tag: the cell, the output, or the pair of a
  MIME type and its payload.
\<close>

datatype node_ref = Cell_ref cell | Output_ref nb_output | Data_ref str source

text \<open>
  The object's attributes. The two dictionaries keep their insertion order, as
  Python's do; \<open>self.node\<close> is assigned only when \<open>loadnb\<close> has returned.
\<close>

record FuseNotebook =
  nb_root :: str
  nb_rw :: bool
  nb_stat :: stat
  fnames :: "(str \<times> (str \<times> node_ref)) list"
  fdata :: "(str \<times> bytes) list"
  node :: "notebook_node option"

definition binary_mimes :: "str list" where
  "binary_mimes = [lit ''image/png'', lit ''image/jpeg'', lit ''application/pdf'']"

text \<open>
  The loop over \<open>enumerate(output.data)\<close> (source lines 79 to 95), from index \<open>k\<close> on:
  \<open>mimes\<close> are the keys still to visit and \<open>d\<close> is the whole dictionary.
\<close>

fun data_loop ::
  "env \<Rightarrow> nat \<Rightarrow> nat \<Rightarrow> (str \<times> source) list \<Rightarrow> nat \<Rightarrow> str list \<Rightarrow> FuseNotebook
     \<Rightarrow> error + FuseNotebook" where
  "data_loop ev i j d k [] self = Inr self"
| "data_loop ev i j d k (mime # rest) self =
     (let ext = guess_extension ev mime;
          fname = lit ''cell'' @ format_int i @ lit ''_out'' @ format_int j @ lit ''_data''
                    @ format_int k @ format_opt ext
      in case map_of d mime of
           None \<Rightarrow> Inl KeyError
         | Some v \<Rightarrow>
             (let self1 = self\<lparr>fnames := AList.update fname (lit ''data'', Data_ref mime v)
                                          (fnames self)\<rparr>
              in case (if mime \<in> set binary_mimes then decodestring ev (maybe_join v)
                       else encode (maybe_join v)) of
                   Inl e \<Rightarrow> Inl e
                 | Inr b \<Rightarrow>
                     data_loop ev i j d (Suc k) rest
                       (self1\<lparr>fdata := AList.update fname b (fdata self1)\<rparr>)))"

text \<open>The loop over \<open>enumerate(cell.outputs)\<close> (source lines 71 to 95), from index \<open>j\<close> on.\<close>

fun output_loop ::
  "env \<Rightarrow> nat \<Rightarrow> nat \<Rightarrow> nb_output list \<Rightarrow> FuseNotebook \<Rightarrow> error + FuseNotebook" where
  "output_loop ev i j [] self = Inr self"
| "output_loop ev i j (out # rest) self =
     (case out of
        Stream nm body \<Rightarrow>
          (let fname = lit ''cell'' @ format_int i @ lit ''_out'' @ format_int j @ lit ''_''
                         @ nm @ lit ''.txt'';
               self1 = self\<lparr>fnames := AList.update fname (lit ''stream'', Output_ref out)
                                           (fnames self)\<rparr>
           in case encode (maybe_join body) of
                Inl e \<Rightarrow> Inl e
              | Inr b \<Rightarrow>
                  output_loop ev i (Suc j) rest
                    (self1\<lparr>fdata := AList.update fname b (fdata self1)\<rparr>))
      | Display_data d \<Rightarrow>
          (case data_loop ev i j d 0 (map fst d) self of
             Inl e \<Rightarrow> Inl e
           | Inr self1 \<Rightarrow> output_loop ev i (Suc j) rest self1)
      | Execute_result d \<Rightarrow>
          (case data_loop ev i j d 0 (map fst d) self of
             Inl e \<Rightarrow> Inl e
           | Inr self1 \<Rightarrow> output_loop ev i (Suc j) rest self1)
      | Error_output \<Rightarrow> output_loop ev i (Suc j) rest self)"

text \<open>The loop over \<open>enumerate(node.cells)\<close> (source lines 62 to 95), from index \<open>i\<close> on.\<close>

fun cell_loop ::
  "env \<Rightarrow> str \<Rightarrow> nat \<Rightarrow> cell list \<Rightarrow> FuseNotebook \<Rightarrow> error + FuseNotebook" where
  "cell_loop ev codeext i [] self = Inr self"
| "cell_loop ev codeext i (c # rest) self =
     (case c of
        Markdown src \<Rightarrow>
          (let fname = lit ''cell'' @ format_int i @ lit ''.md'';
               self1 = self\<lparr>fnames := AList.update fname (lit ''markdown'', Cell_ref c)
                                           (fnames self)\<rparr>
           in case encode (maybe_join src) of
                Inl e \<Rightarrow> Inl e
              | Inr b \<Rightarrow>
                  cell_loop ev codeext (Suc i) rest
                    (self1\<lparr>fdata := AList.update fname b (fdata self1)\<rparr>))
      | Code src outs \<Rightarrow>
          (let fname = lit ''cell'' @ format_int i @ codeext;
               self1 = self\<lparr>fnames := AList.update fname (lit ''code'', Cell_ref c)
                                           (fnames self)\<rparr>
           in case encode (maybe_join src) of
                Inl e \<Rightarrow> Inl e
              | Inr b \<Rightarrow>
                  (case output_loop ev i 0 outs
                          (self1\<lparr>fdata := AList.update fname b (fdata self1)\<rparr>) of
                     Inl e \<Rightarrow> Inl e
                   | Inr self2 \<Rightarrow> cell_loop ev codeext (Suc i) rest self2))
      | Raw src \<Rightarrow> cell_loop ev codeext (Suc i) rest self)"

text \<open>
  \<open>FuseNotebook.loadnb\<close>: read the notebook, take the code extension from its metadata
  (an \<open>AttributeError\<close> when it is absent), fill the two dictionaries, return the node.
\<close>

definition loadnb :: "env \<Rightarrow> FuseNotebook \<Rightarrow> error + (notebook_node \<times> FuseNotebook)" where
  "loadnb ev self =
     (case nbformat_read ev (nb_root self) of
        Inl e \<Rightarrow> Inl e
      | Inr nd \<Rightarrow>
          (case file_extension nd of
             None \<Rightarrow> Inl AttributeError
           | Some codeext \<Rightarrow>
               (case cell_loop ev codeext 0 (cells nd) self of
                  Inl e \<Rightarrow> Inl e
                | Inr self1 \<Rightarrow> Inr (nd, self1))))"

text \<open>\<open>FuseNotebook.__init__\<close>: an exception of \<open>lstat\<close> or \<open>loadnb\<close> leaves no object.\<close>

definition FuseNotebook_init :: "env \<Rightarrow> str \<Rightarrow> bool \<Rightarrow> error + FuseNotebook" where
  "FuseNotebook_init ev nbpath rw =
     (case lstat ev (path_str (parse_path nbpath)) of
        Inl e \<Rightarrow> Inl e
      | Inr s \<Rightarrow>
          (let self = \<lparr>nb_root = nbpath, nb_rw = rw, nb_stat = s, fnames = [], fdata = [],
                        node = None\<rparr>
           in case loadnb ev self of
                Inl e \<Rightarrow> Inl e
              | Inr (nd, self1) \<Rightarrow> Inr (self1\<lparr>node := Some nd\<rparr>)))"

text \<open>\<open>FuseNotebook.readdir\<close>, with the generator run to its end.\<close>

definition FuseNotebook_readdir :: "FuseNotebook \<Rightarrow> str \<Rightarrow> str list" where
  "FuseNotebook_readdir self path = [lit ''.'', lit ''..''] @ sort (map fst (fnames self))"

text \<open>
  \<open>FuseNotebook.getattr\<close>: the entry is chosen by \<open>Path(path).name\<close>; a name of
  \<open>self.fnames\<close> that \<open>self.fdata\<close> lacks would be a \<open>KeyError\<close>.
\<close>

definition FuseNotebook_getattr :: "FuseNotebook \<Rightarrow> str \<Rightarrow> error + stat" where
  "FuseNotebook_getattr self path =
     (let fname = path_name (parse_path path)
      in if fname \<in> set (map fst (fnames self)) then
           (case map_of (fdata self) fname of
              None \<Rightarrow> Inl KeyError
            | Some d \<Rightarrow>
                Inr \<lparr>st_atime = st_atime (nb_stat self),
                     st_ctime = st_ctime (nb_stat self),
                     st_gid = st_gid (nb_stat self),
                     st_mode = st_mode (nb_stat self),
                     st_mtime = st_mtime (nb_stat self),
                     st_nlink = st_nlink (nb_stat self),
                     st_size = length d,
                     st_uid = st_uid (nb_stat self)\<rparr>)
         else Inl (FuseOSError ENOENT))"

text \<open>
  \<open>FuseNotebook.read(path, length, offset, fh)\<close>: the arguments are in the order of the
  source, the length before the offset.
\<close>

definition FuseNotebook_read :: "FuseNotebook \<Rightarrow> str \<Rightarrow> int \<Rightarrow> int \<Rightarrow> error + bytes" where
  "FuseNotebook_read self path len offset =
     (let fname = path_name (parse_path path)
      in if fname \<in> set (map fst (fnames self)) then
           (case map_of (fdata self) fname of
              None \<Rightarrow> Inl KeyError
            | Some d \<Rightarrow> Inr (slice d offset (offset + len)))
         else Inl (FuseOSError ENOENT))"

section \<open>FuseNotebookDir: the directory tree with notebooks as directories\<close>

text \<open>
  The object's attributes: \<open>self.root\<close> is the resolved root directory, and
  \<open>self.notebooks\<close> is the dictionary from a notebook's path to its \<open>FuseNotebook\<close>.
\<close>

record FuseNotebookDir =
  dir_root :: path
  dir_rw :: bool
  notebooks :: "(str \<times> FuseNotebook) list"

text \<open>\<open>FuseNotebookDir.__init__\<close>, given \<open>Path(root).resolve()\<close>.\<close>

definition FuseNotebookDir_init :: "path \<Rightarrow> bool \<Rightarrow> FuseNotebookDir" where
  "FuseNotebookDir_init resolved rw = \<lparr>dir_root = resolved, dir_rw = rw, notebooks = []\<rparr>"

text \<open>\<open>self.root / path\<close> after the leading separator of \<open>path\<close> is stripped.\<close>

definition resolve_request :: "FuseNotebookDir \<Rightarrow> str \<Rightarrow> path" where
  "resolve_request self path =
     (let p = parse_path path;
          p1 = (if is_absolute p then drop_anchor p else p)
      in path_join (dir_root self) p1)"

text \<open>
  \<open>FuseNotebookDir._classify\<close>: the kind tag is one of the strings \<open>nbcont\<close>, \<open>dir\<close>,
  \<open>nb\<close>, \<open>file\<close>, or \<open>None\<close>.
\<close>

definition FuseNotebookDir_classify ::
  "env \<Rightarrow> FuseNotebookDir \<Rightarrow> str \<Rightarrow> str option \<times> str" where
  "FuseNotebookDir_classify ev self path =
     (let fspath = resolve_request self path
      in if is_file ev (path_str (path_parent fspath))
            \<and> path_suffix (path_parent fspath) = lit ''.ipynb''
         then (Some (lit ''nbcont''), path_str (path_parent fspath))
         else if is_dir ev (path_str fspath) then (Some (lit ''dir''), path_str fspath)
         else if is_file ev (path_str fspath) then
           (if path_suffix fspath = lit ''.ipynb'' then (Some (lit ''nb''), path_str fspath)
            else (Some (lit ''file''), path_str fspath))
         else (None, path_str fspath))"

text \<open>
  \<open>FuseNotebookDir._notebook\<close>: the cached object, or a new one that is stored; an
  exception of the constructor leaves the dictionary as it was.
\<close>

definition FuseNotebookDir_notebook ::
  "env \<Rightarrow> FuseNotebookDir \<Rightarrow> str \<Rightarrow> (error + FuseNotebook) \<times> FuseNotebookDir" where
  "FuseNotebookDir_notebook ev self fspath =
     (if fspath \<in> set (map fst (notebooks self)) then
        (case map_of (notebooks self) fspath of
           None \<Rightarrow> (Inl KeyError, self)
         | Some n \<Rightarrow> (Inr n, self))
      else
        (case FuseNotebook_init ev fspath (dir_rw self) of
           Inl e \<Rightarrow> (Inl e, self)
         | Inr n \<Rightarrow> (Inr n, self\<lparr>notebooks := AList.update fspath n (notebooks self)\<rparr>)))"

text \<open>\<open>stat.S_IFDIR\<close> is octal \<open>040000\<close>; the permission bits are octal \<open>775\<close>, that is 509.\<close>

definition S_IFDIR :: nat where
  "S_IFDIR = 16384"

definition FuseNotebookDir_getattr ::
  "env \<Rightarrow> FuseNotebookDir \<Rightarrow> str \<Rightarrow> (error + stat) \<times> FuseNotebookDir" where
  "FuseNotebookDir_getattr ev self path =
     (case FuseNotebookDir_classify ev self path of
        (ty, fspath) \<Rightarrow>
          if ty = Some (lit ''nbcont'') then
            (case FuseNotebookDir_notebook ev self fspath of
               (Inl e, self1) \<Rightarrow> (Inl e, self1)
             | (Inr n, self1) \<Rightarrow> (FuseNotebook_getattr n path, self1))
          else if ty \<in> {Some (lit ''dir''), Some (lit ''file'')} then
            (case lstat ev (path_str (parse_path fspath)) of
               Inl e \<Rightarrow> (Inl e, self)
             | Inr s \<Rightarrow> (Inr s, self))
          else if ty = Some (lit ''nb'') then
            (case lstat ev (path_str (parse_path fspath)) of
               Inl e \<Rightarrow> (Inl e, self)
             | Inr s \<Rightarrow>
                 (Inr \<lparr>st_atime = st_atime s,
                       st_ctime = st_ctime s,
                       st_gid = st_gid s,
                       st_mode = S_IFDIR OR 509,
                       st_mtime = st_mtime s,
                       st_nlink = 1,
                       st_size = 4096,
                       st_uid = st_uid s\<rparr>, self))
          else (Inl (FuseOSError ENOENT), self))"

text \<open>
  \<open>FuseNotebookDir.readdir\<close>, with the generator run to its end: for a kind that is
  neither \<open>dir\<close> nor \<open>nb\<close> the generator yields nothing and raises nothing.
\<close>

definition FuseNotebookDir_readdir ::
  "env \<Rightarrow> FuseNotebookDir \<Rightarrow> str \<Rightarrow> (error + str list) \<times> FuseNotebookDir" where
  "FuseNotebookDir_readdir ev self path =
     (case FuseNotebookDir_classify ev self path of
        (ty, fspath) \<Rightarrow>
          if ty = Some (lit ''dir'') then
            (case iterdir ev (path_str (parse_path fspath)) of
               Inl e \<Rightarrow> (Inl e, self)
             | Inr children \<Rightarrow> (Inr ([lit ''.'', lit ''..''] @ children), self))
          else if ty = Some (lit ''nb'') then
            (case FuseNotebookDir_notebook ev self fspath of
               (Inl e, self1) \<Rightarrow> (Inl e, self1)
             | (Inr n, self1) \<Rightarrow> (Inr (FuseNotebook_readdir n path), self1))
          else (Inr [], self))"

text \<open>
  \<open>FuseNotebookDir.read\<close>: for a kind that is neither \<open>nbcont\<close> nor \<open>file\<close> the method
  returns \<open>None\<close>.
\<close>

definition FuseNotebookDir_read ::
  "env \<Rightarrow> FuseNotebookDir \<Rightarrow> str \<Rightarrow> int \<Rightarrow> int \<Rightarrow> nat
     \<Rightarrow> (error + bytes option) \<times> FuseNotebookDir" where
  "FuseNotebookDir_read ev self path len offset fh =
     (case FuseNotebookDir_classify ev self path of
        (ty, fspath) \<Rightarrow>
          if ty = Some (lit ''nbcont'') then
            (case FuseNotebookDir_notebook ev self fspath of
               (Inl e, self1) \<Rightarrow> (Inl e, self1)
             | (Inr n, self1) \<Rightarrow>
                 (case FuseNotebook_read n path len offset of
                    Inl e \<Rightarrow> (Inl e, self1)
                  | Inr b \<Rightarrow> (Inr (Some b), self1)))
          else if ty = Some (lit ''file'') then
            (case os_read ev fh offset len of
               Inl e \<Rightarrow> (Inl e, self)
             | Inr b \<Rightarrow> (Inr (Some b), self))
          else (Inr None, self))"

section \<open>Example inputs\<close>

text \<open>
  A root directory \<open>/data\<close> holding a subdirectory, three notebook files (one of which
  cannot be decoded) and a plain file. \<open>nb_example\<close> is the notebook of the scenario: a
  markdown cell, and a code cell with one stream output.
\<close>

definition stat_example :: stat where
  "stat_example =
     \<lparr>st_atime = 1, st_ctime = 2, st_gid = 100, st_mode = 33188, st_mtime = 3,
      st_nlink = 1, st_size = 500, st_uid = 1000\<rparr>"

definition nb_example :: notebook_node where
  "nb_example =
     \<lparr>file_extension = Some (lit ''.py''),
      cells = [Markdown (Text (lit ''# Title'')),
               Code (Text (lit ''print(1)''))
                 [Stream (lit ''stdout'') (Text (lit [CHR ''1'', CHR 0x0A]))]]\<rparr>"

definition nb_latex :: notebook_node where
  "nb_latex =
     \<lparr>file_extension = Some (lit ''.py''),
      cells = [Code (Text (lit ''x''))
                 [Display_data [(lit ''text/plain'', Text (lit ''x'')),
                                (lit ''text/latex'', Text (lit ''$x$''))]]]\<rparr>"

definition env_example :: env where
  "env_example =
     \<lparr>is_file = (\<lambda>p. p \<in> set [lit ''/data/nb.ipynb'', lit ''/data/latex.ipynb'',
                                  lit ''/data/broken.ipynb'', lit ''/data/readme.txt'']),
      is_dir = (\<lambda>p. p \<in> set [lit ''/data'', lit ''/data/subdir'']),
      lstat = (\<lambda>p. if p \<in> set [lit ''/data'', lit ''/data/subdir'', lit ''/data/nb.ipynb'',
                                   lit ''/data/latex.ipynb'', lit ''/data/broken.ipynb'',
                                   lit ''/data/readme.txt'']
                    then Inr stat_example else Inl OSError),
      iterdir = (\<lambda>p. if p = lit ''/data''
                      then Inr [lit ''subdir'', lit ''nb.ipynb'', lit ''latex.ipynb'',
                                lit ''broken.ipynb'', lit ''readme.txt'']
                      else if p = lit ''/data/subdir'' then Inr [] else Inl OSError),
      nbformat_read = (\<lambda>p. if p = lit ''/data/nb.ipynb'' then Inr nb_example
                            else if p = lit ''/data/latex.ipynb'' then Inr nb_latex
                            else Inl DecodeError),
      guess_extension = (\<lambda>m. if m = lit ''text/plain'' then Some (lit ''.txt'') else None),
      decodestring = (\<lambda>x. Inl Base64Error),
      os_read = (\<lambda>fh offset len. Inl OSError)\<rparr>"

definition projection_example :: FuseNotebook where
  "projection_example =
     \<lparr>nb_root = lit ''/data/nb.ipynb'', nb_rw = False, nb_stat = stat_example,
      fnames =
        [(lit ''cell0.md'', lit ''markdown'', Cell_ref (Markdown (Text (lit ''# Title'')))),
         (lit ''cell1.py'', lit ''code'',
            Cell_ref (Code (Text (lit ''print(1)''))
                        [Stream (lit ''stdout'') (Text (lit [CHR ''1'', CHR 0x0A]))])),
         (lit ''cell1_out0_stdout.txt'', lit ''stream'',
            Output_ref (Stream (lit ''stdout'') (Text (lit [CHR ''1'', CHR 0x0A]))))],
      fdata =
        [(lit ''cell0.md'', ''# Title''),
         (lit ''cell1.py'', ''print(1)''),
         (lit ''cell1_out0_stdout.txt'', [CHR ''1'', CHR 0x0A])],
      node = Some nb_example\<rparr>"

definition fresh_example :: FuseNotebook where
  "fresh_example =
     \<lparr>nb_root = lit ''/data/nb.ipynb'', nb_rw = False, nb_stat = stat_example,
      fnames = [], fdata = [], node = None\<rparr>"

definition dir_example :: FuseNotebookDir where
  "dir_example = FuseNotebookDir_init (parse_path (lit ''/data'')) False"

text \<open>The same environment with every notebook readable, and with none.\<close>

definition env_repaired :: env where
  "env_repaired = env_example\<lparr>nbformat_read := (\<lambda>p. Inr nb_example)\<rparr>"

definition env_unreadable :: env where
  "env_unreadable = env_example\<lparr>nbformat_read := (\<lambda>p. Inl DecodeError)\<rparr>"

section \<open>The two dictionaries have the same keys\<close>

lemma update_same_keys:
  "map fst al = map fst bl \<Longrightarrow> map fst (AList.update k v al) = map fst (AList.update k w bl)"
  by (simp add: update_keys)

lemma data_loop_keys:
  "data_loop ev i j d k ms self = Inr self' \<Longrightarrow> map fst (fnames self) = map fst (fdata self)
     \<Longrightarrow> map fst (fnames self') = map fst (fdata self')"
proof (induction ms arbitrary: k self)
  case Nil
  then show ?case by simp
next
  case (Cons mime rest)
  from Cons.prems show ?case
    by (auto simp: Let_def update_same_keys split: option.splits sum.splits if_splits
             intro!: Cons.IH)
qed

lemma output_loop_keys:
  "output_loop ev i j outs self = Inr self' \<Longrightarrow> map fst (fnames self) = map fst (fdata self)
     \<Longrightarrow> map fst (fnames self') = map fst (fdata self')"
proof (induction outs arbitrary: j self)
  case Nil
  then show ?case by simp
next
  case (Cons outp rest)
  show ?case
  proof (cases outp)
    case (Stream nm body)
    with Cons.prems show ?thesis
      by (auto simp: Let_def update_same_keys split: sum.splits intro!: Cons.IH)
  next
    case (Display_data d)
    with Cons.prems show ?thesis
      by (auto split: sum.splits dest: data_loop_keys intro: Cons.IH)
  next
    case (Execute_result d)
    with Cons.prems show ?thesis
      by (auto split: sum.splits dest: data_loop_keys intro: Cons.IH)
  next
    case Error_output
    with Cons.prems show ?thesis
      by (auto intro: Cons.IH)
  qed
qed

lemma cell_loop_keys:
  "cell_loop ev codeext i cs self = Inr self' \<Longrightarrow> map fst (fnames self) = map fst (fdata self)
     \<Longrightarrow> map fst (fnames self') = map fst (fdata self')"
proof (induction cs arbitrary: i self)
  case Nil
  then show ?case by simp
next
  case (Cons c rest)
  show ?case
  proof (cases c)
    case (Markdown src)
    with Cons.prems show ?thesis
      by (auto simp: Let_def update_same_keys split: sum.splits intro!: Cons.IH)
  next
    case (Code src outs)
    with Cons.prems show ?thesis
      by (auto simp: Let_def update_same_keys split: sum.splits
               dest!: output_loop_keys intro: Cons.IH)
  next
    case (Raw src)
    with Cons.prems show ?thesis
      by (auto intro: Cons.IH)
  qed
qed

lemma FuseNotebook_init_keys:
  "FuseNotebook_init ev p rw = Inr self \<Longrightarrow> map fst (fnames self) = map fst (fdata self)"
  by (auto simp: FuseNotebook_init_def loadnb_def Let_def split: sum.splits option.splits
           dest!: cell_loop_keys)

lemma key_has_value: "k \<in> set (map fst al) \<Longrightarrow> \<exists>v. map_of al k = Some v"
  by (induction al) auto


section \<open>Evaluation of the examples\<close>

lemmas eval_simps = lit_def format_int.simps format_opt_def maybe_join_def encode_def
  encode_cp_def Let_def binary_mimes_def char_of_eq_iff

lemmas path_simps = parse_path_def path_str_def path_name_def path_parent_def path_suffix_def
  rfind_dot_def path_join_def drop_anchor_def is_absolute_def sep_def dot_def

lemma init_example:
  "FuseNotebook_init env_example (lit ''/data/nb.ipynb'') False = Inr projection_example"
  by (simp add: FuseNotebook_init_def loadnb_def env_example_def nb_example_def
        projection_example_def path_simps eval_simps)

lemmas classify_simps = FuseNotebookDir_classify_def resolve_request_def path_simps lit_def
  env_example_def dir_example_def FuseNotebookDir_init_def

section \<open>Slices\<close>

lemma slice_nonneg:
  "0 \<le> a \<Longrightarrow> 0 \<le> n \<Longrightarrow> slice xs a (a + n) = take (nat n) (drop (nat a) xs)"
  by (auto simp: slice_def slice_bound_def Let_def min_def nat_add_distrib)

lemma slice_whole: "slice xs 0 (int (length xs)) = xs"
  by (simp add: slice_def slice_bound_def)

lemma take_drop_clip:
  "length (take n (drop m d)) = min (length d - m) n"
  by simp

section \<open>The final component of a path\<close>

lemma split_sep_nonempty: "split_sep s \<noteq> []"
  by (induction s) (auto split: list.splits)

lemma split_sep_single: "sep \<notin> set n \<Longrightarrow> split_sep n = [n]"
  by (induction n) auto

lemma split_sep_append: "split_sep (a @ sep # n) = split_sep a @ split_sep n"
proof (induction a)
  case Nil
  show ?case by simp
next
  case (Cons c a)
  then show ?case
    using split_sep_nonempty [of a] by (cases "split_sep a") auto
qed

lemma dropWhile_sep_suffix:
  assumes "sep \<notin> set n"
  shows "\<exists>a. dropWhile (\<lambda>c. c = sep) (d @ sep # n) = a @ sep # n
           \<or> dropWhile (\<lambda>c. c = sep) (d @ sep # n) = n"
proof (cases "\<forall>c\<in>set d. c = sep")
  case True
  then have "dropWhile (\<lambda>c. c = sep) (d @ sep # n) = dropWhile (\<lambda>c. c = sep) (sep # n)"
    by (simp add: dropWhile_append2)
  also have "\<dots> = n"
    using assms by (cases n) auto
  finally show ?thesis by simp
next
  case False
  then obtain x where "x \<in> set d" "x \<noteq> sep" by blast
  then have "dropWhile (\<lambda>c. c = sep) (d @ sep # n) = dropWhile (\<lambda>c. c = sep) d @ sep # n"
    by (simp add: dropWhile_append1)
  then show ?thesis by blast
qed

lemma path_name_final_component:
  assumes "sep \<notin> set n" and "n \<noteq> []" and "n \<noteq> [dot]"
  shows "path_name (parse_path (d @ sep # n)) = n"
proof -
  obtain a where "dropWhile (\<lambda>c. c = sep) (d @ sep # n) = a @ sep # n
           \<or> dropWhile (\<lambda>c. c = sep) (d @ sep # n) = n"
    using dropWhile_sep_suffix [OF assms(1)] by blast
  then have "\<exists>xs. split_sep (dropWhile (\<lambda>c. c = sep) (d @ sep # n)) = xs @ [n]"
  proof
    assume "dropWhile (\<lambda>c. c = sep) (d @ sep # n) = a @ sep # n"
    then show ?thesis
      using assms(1) by (simp add: split_sep_append split_sep_single)
  next
    assume "dropWhile (\<lambda>c. c = sep) (d @ sep # n) = n"
    then show ?thesis
      using assms(1) by (simp add: split_sep_single)
  qed
  then obtain xs where "split_sep (dropWhile (\<lambda>c. c = sep) (d @ sep # n)) = xs @ [n]" ..
  then show ?thesis
    using assms(2,3) by (simp add: parse_path_def path_name_def Let_def)
qed

section \<open>The notebook cache\<close>

lemma init_decode_error:
  "nbformat_read ev fspath = Inl e \<Longrightarrow>
     FuseNotebook_init ev fspath rw
       = Inl (case lstat ev (path_str (parse_path fspath)) of Inl e0 \<Rightarrow> e0 | Inr s \<Rightarrow> e)"
  by (simp add: FuseNotebook_init_def loadnb_def split: sum.splits)

lemma notebook_uncached:
  "fspath \<notin> set (map fst (notebooks self)) \<Longrightarrow>
     FuseNotebookDir_notebook ev self fspath =
       (case FuseNotebook_init ev fspath (dir_rw self) of
          Inl e \<Rightarrow> (Inl e, self)
        | Inr n \<Rightarrow> (Inr n, self\<lparr>notebooks := AList.update fspath n (notebooks self)\<rparr>))"
  by (simp add: FuseNotebookDir_notebook_def)

lemma notebook_cached:
  "map_of (notebooks self) fspath = Some n \<Longrightarrow>
     FuseNotebookDir_notebook ev self fspath = (Inr n, self)"
proof -
  assume a: "map_of (notebooks self) fspath = Some n"
  then have "fspath \<in> fst ` set (notebooks self)"
    by (metis domI dom_map_of_conv_image_fst)
  with a show ?thesis
    by (simp add: FuseNotebookDir_notebook_def)
qed

lemma notebook_success_cached:
  assumes "FuseNotebookDir_notebook ev self fspath = (Inr n, self1)"
  shows "map_of (notebooks self1) fspath = Some n"
proof (cases "fspath \<in> set (map fst (notebooks self))")
  case True
  with assms show ?thesis
    by (auto simp: FuseNotebookDir_notebook_def split: option.splits)
next
  case False
  with assms show ?thesis
    by (auto simp: notebook_uncached update_conv' split: sum.splits)
qed

lemma nb_mode: "S_IFDIR OR 509 = (16893::nat)" "(16893::nat) AND 61440 = S_IFDIR"
  by (simp_all add: S_IFDIR_def)

lemma readdir_other_kinds:
  "FuseNotebookDir_classify ev self path = (ty, fspath) \<Longrightarrow> ty \<noteq> Some (lit ''dir'')
     \<Longrightarrow> ty \<noteq> Some (lit ''nb'') \<Longrightarrow> FuseNotebookDir_readdir ev self path = (Inr [], self)"
  by (simp add: FuseNotebookDir_readdir_def)

section \<open>Namespace construction\<close>

text \<open>
  C1. The scenario of the specification: a notebook with the markdown cell \<open># Title\<close>,
  the code cell \<open>print(1)\<close> with the stream output \<open>stdout\<close> of text \<open>1\<close> and a newline,
  and the code extension \<open>.py\<close>. Whenever reading the file yields this notebook,
  \<open>loadnb\<close> on a fresh object returns it and leaves exactly three entries, in this
  order: \<open>cell0.md\<close>, \<open>cell1.py\<close> and \<open>cell1_out0_stdout.txt\<close>, whose contents are the
  UTF-8 bytes of the three bodies.
\<close>

theorem loadnb_scenario_namespace:
  assumes "nbformat_read ev (nb_root self) = Inr nb_example"
    and "fnames self = []" and "fdata self = []"
  shows "loadnb ev self =
           Inr (nb_example,
                self\<lparr>fnames :=
                       [(lit ''cell0.md'', lit ''markdown'',
                           Cell_ref (Markdown (Text (lit ''# Title'')))),
                        (lit ''cell1.py'', lit ''code'',
                           Cell_ref (Code (Text (lit ''print(1)''))
                             [Stream (lit ''stdout'') (Text (lit [CHR ''1'', CHR 0x0A]))])),
                        (lit ''cell1_out0_stdout.txt'', lit ''stream'',
                           Output_ref (Stream (lit ''stdout'')
                             (Text (lit [CHR ''1'', CHR 0x0A]))))],
                     fdata :=
                       [(lit ''cell0.md'', ''# Title''),
                        (lit ''cell1.py'', ''print(1)''),
                        (lit ''cell1_out0_stdout.txt'', [CHR ''1'', CHR 0x0A])]\<rparr>)"
  using assms by (simp add: loadnb_def nb_example_def eval_simps)

theorem loadnb_scenario_namespace_witness:
  "nbformat_read env_example (nb_root fresh_example) = Inr nb_example
   \<and> fnames fresh_example = [] \<and> fdata fresh_example = []
   \<and> loadnb env_example fresh_example =
         Inr (nb_example,
              fresh_example\<lparr>fnames := fnames projection_example,
                             fdata := fdata projection_example\<rparr>)"
  using loadnb_scenario_namespace [of env_example fresh_example]
  by (simp add: env_example_def fresh_example_def projection_example_def lit_def)

section \<open>Classification of request paths\<close>

text \<open>
  C2. For every environment, router and request path, with \<open>fspath\<close> the request
  resolved against the root and \<open>parent\<close> its parent: if \<open>parent\<close> is a real file
  whose suffix is \<open>.ipynb\<close> the result is \<open>nbcont\<close> with the parent as the key; otherwise
  a real directory gives \<open>dir\<close>; otherwise a real file gives \<open>nb\<close> when its suffix is
  \<open>.ipynb\<close> and \<open>file\<close> when it is not; otherwise the kind is \<open>None\<close>. The suffix is
  the one \<open>pathlib\<close> computes: the final component from its last dot on, which is
  empty for a component that starts with that dot. In the scenario, the root is \<open>/data\<close>, \<open>/data/nb.ipynb\<close>
  is a file (and so not a directory) and \<open>/data/subdir\<close> is a directory: then
  \<open>/nb.ipynb\<close> is \<open>nb\<close>, \<open>/nb.ipynb/cell0.md\<close> is \<open>nbcont\<close> with key \<open>/data/nb.ipynb\<close>, and
  \<open>/subdir\<close> is \<open>dir\<close>.
\<close>

theorem classify_precedence:
  "(let fspath = resolve_request self path;
        parent = path_parent fspath;
        inside = (is_file ev (path_str parent) \<and> path_suffix parent = lit ''.ipynb'')
    in (inside \<longrightarrow>
          FuseNotebookDir_classify ev self path = (Some (lit ''nbcont''), path_str parent))
     \<and> (\<not> inside \<and> is_dir ev (path_str fspath) \<longrightarrow>
          FuseNotebookDir_classify ev self path = (Some (lit ''dir''), path_str fspath))
     \<and> (\<not> inside \<and> \<not> is_dir ev (path_str fspath) \<and> is_file ev (path_str fspath)
          \<and> path_suffix fspath = lit ''.ipynb'' \<longrightarrow>
          FuseNotebookDir_classify ev self path = (Some (lit ''nb''), path_str fspath))
     \<and> (\<not> inside \<and> \<not> is_dir ev (path_str fspath) \<and> is_file ev (path_str fspath)
          \<and> path_suffix fspath \<noteq> lit ''.ipynb'' \<longrightarrow>
          FuseNotebookDir_classify ev self path = (Some (lit ''file''), path_str fspath))
     \<and> (\<not> inside \<and> \<not> is_dir ev (path_str fspath) \<and> \<not> is_file ev (path_str fspath) \<longrightarrow>
          FuseNotebookDir_classify ev self path = (None, path_str fspath)))
   \<and> (dir_root self = parse_path (lit ''/data'')
        \<and> is_file ev (lit ''/data/nb.ipynb'') \<and> \<not> is_dir ev (lit ''/data/nb.ipynb'')
        \<and> is_dir ev (lit ''/data/subdir'') \<longrightarrow>
          FuseNotebookDir_classify ev self (lit ''/nb.ipynb'')
            = (Some (lit ''nb''), lit ''/data/nb.ipynb'')
        \<and> FuseNotebookDir_classify ev self (lit ''/nb.ipynb/cell0.md'')
            = (Some (lit ''nbcont''), lit ''/data/nb.ipynb'')
        \<and> FuseNotebookDir_classify ev self (lit ''/subdir'')
            = (Some (lit ''dir''), lit ''/data/subdir''))"
  unfolding Let_def
  apply (rule conjI)
  subgoal by (simp add: FuseNotebookDir_classify_def Let_def)
  subgoal by (simp add: FuseNotebookDir_classify_def resolve_request_def path_simps lit_def)
  done

theorem classify_precedence_witness:
  "dir_root dir_example = parse_path (lit ''/data'')
   \<and> is_file env_example (lit ''/data/nb.ipynb'') \<and> \<not> is_dir env_example (lit ''/data/nb.ipynb'')
   \<and> is_dir env_example (lit ''/data/subdir'')
   \<and> FuseNotebookDir_classify env_example dir_example (lit ''/nb.ipynb'')
       = (Some (lit ''nb''), lit ''/data/nb.ipynb'')
   \<and> FuseNotebookDir_classify env_example dir_example (lit ''/nb.ipynb/cell0.md'')
       = (Some (lit ''nbcont''), lit ''/data/nb.ipynb'')
   \<and> FuseNotebookDir_classify env_example dir_example (lit ''/subdir'')
       = (Some (lit ''dir''), lit ''/data/subdir'')
   \<and> FuseNotebookDir_classify env_example dir_example (lit ''/readme.txt'')
       = (Some (lit ''file''), lit ''/data/readme.txt'')
   \<and> FuseNotebookDir_classify env_example dir_example (lit ''/missing'')
       = (None, lit ''/data/missing'')"
  using classify_precedence [of dir_example "lit ''/readme.txt''" env_example]
    classify_precedence [of dir_example "lit ''/missing''" env_example]
  by (simp add: resolve_request_def path_simps lit_def env_example_def dir_example_def
        FuseNotebookDir_init_def)

section \<open>Names of data outputs\<close>

text \<open>
  C3. What the code does for a MIME type that \<open>guess_extension\<close> knows no extension
  for. The notebook has one code cell whose \<open>display_data\<close> output carries \<open>text/plain\<close>
  and \<open>text/latex\<close>; the environment knows \<open>.txt\<close> for the first and nothing for the second.
  The entry of index 0 is named \<open>cell0_out0_data0.txt\<close>, and the entry of index 1 is named
  \<open>cell0_out0_data1None\<close>: the \<open>None\<close> that \<open>guess_extension\<close> returned is formatted into
  the name, it is not replaced by the empty string.
\<close>

theorem data_name_for_unknown_mime:
  "guess_extension env_example (lit ''text/latex'') = None
   \<and> (case loadnb env_example (fresh_example\<lparr>nb_root := lit ''/data/latex.ipynb''\<rparr>) of
         Inl e \<Rightarrow> None
       | Inr (nd, self1) \<Rightarrow> Some (fdata self1))
     = Some [(lit ''cell0.py'', ''x''),
             (lit ''cell0_out0_data0.txt'', ''x''),
             (lit ''cell0_out0_data1None'', ''$x$'')]"
  by (simp add: loadnb_def env_example_def fresh_example_def nb_latex_def eval_simps)

section \<open>Attributes and reads of virtual files\<close>

text \<open>
  C4. For a \<open>FuseNotebook\<close> that its constructor returned and a request path whose final
  component is a name of the namespace: the name has a content \<open>d\<close>, \<open>getattr\<close> succeeds
  and its \<open>st_size\<close> is the number of bytes of \<open>d\<close>, and \<open>read\<close> at offset 0 with that
  size as the length returns the whole of \<open>d\<close> (so exactly \<open>st_size\<close> bytes). The methods
  receive a path and look the entry up by \<open>Path(path).name\<close>; \<open>read\<close> takes the length
  before the offset.
\<close>

theorem getattr_size_is_content_length:
  assumes "FuseNotebook_init ev nbpath rw = Inr self"
    and "path_name (parse_path path) \<in> set (map fst (fnames self))"
  shows "\<exists>d a. map_of (fdata self) (path_name (parse_path path)) = Some d
           \<and> FuseNotebook_getattr self path = Inr a
           \<and> st_size a = length d
           \<and> FuseNotebook_read self path (int (st_size a)) 0 = Inr d"
proof -
  from assms(1) have "map fst (fnames self) = map fst (fdata self)"
    by (rule FuseNotebook_init_keys)
  with assms(2) have "path_name (parse_path path) \<in> set (map fst (fdata self))"
    by simp
  then have "\<exists>d. map_of (fdata self) (path_name (parse_path path)) = Some d"
    by (rule key_has_value)
  then obtain d where d: "map_of (fdata self) (path_name (parse_path path)) = Some d" ..
  with assms(2) show ?thesis
    by (simp add: FuseNotebook_getattr_def FuseNotebook_read_def Let_def slice_whole)
qed

theorem getattr_size_is_content_length_witness:
  "FuseNotebook_init env_example (lit ''/data/nb.ipynb'') False = Inr projection_example
   \<and> path_name (parse_path (lit ''/nb.ipynb/cell1.py''))
         \<in> set (map fst (fnames projection_example))
   \<and> (\<exists>d a. map_of (fdata projection_example) (lit ''cell1.py'') = Some d
           \<and> FuseNotebook_getattr projection_example (lit ''/nb.ipynb/cell1.py'') = Inr a
           \<and> st_size a = 8 \<and> length d = 8
           \<and> FuseNotebook_read projection_example (lit ''/nb.ipynb/cell1.py'') 8 0 = Inr d)"
proof -
  have n: "path_name (parse_path (lit ''/nb.ipynb/cell1.py'')) = lit ''cell1.py''"
    by (simp add: path_simps lit_def)
  have m: "lit ''cell1.py'' \<in> set (map fst (fnames projection_example))"
    by (simp add: projection_example_def lit_def)
  have d: "map_of (fdata projection_example) (lit ''cell1.py'') = Some ''print(1)''"
    by (simp add: projection_example_def lit_def)
  from getattr_size_is_content_length [OF init_example, of "lit ''/nb.ipynb/cell1.py''"] n m d
  show ?thesis
    using init_example by auto
qed

text \<open>
  C5. For a \<open>FuseNotebook\<close> that its constructor returned, a request path whose final
  component is a name of the namespace with content \<open>d\<close>, and a non-negative offset and
  length: \<open>read\<close> does not raise and returns the bytes of \<open>d\<close> from the offset on, at most
  \<open>length\<close> of them. From an offset at or past the end it returns no bytes; when
  offset plus length passes the end it returns the size minus the offset bytes (none
  when the offset is past the end: the subtraction is on naturals); otherwise it
  returns \<open>length\<close> bytes.
\<close>

theorem read_clipped_to_content:
  assumes "FuseNotebook_init ev nbpath rw = Inr self"
    and "path_name (parse_path path) \<in> set (map fst (fnames self))"
    and "0 \<le> offset" and "0 \<le> len"
  shows "\<exists>d r. map_of (fdata self) (path_name (parse_path path)) = Some d
           \<and> FuseNotebook_read self path len offset = Inr r
           \<and> r = take (nat len) (drop (nat offset) d)
           \<and> (int (length d) \<le> offset \<longrightarrow> r = [])
           \<and> (int (length d) < offset + len \<longrightarrow> length r = length d - nat offset)
           \<and> (offset + len \<le> int (length d) \<longrightarrow> length r = nat len)"
proof -
  from assms(1) have "map fst (fnames self) = map fst (fdata self)"
    by (rule FuseNotebook_init_keys)
  with assms(2) have "path_name (parse_path path) \<in> set (map fst (fdata self))"
    by simp
  then have "\<exists>d. map_of (fdata self) (path_name (parse_path path)) = Some d"
    by (rule key_has_value)
  then obtain d where d: "map_of (fdata self) (path_name (parse_path path)) = Some d" ..
  obtain m where m: "offset = int m"
    using assms(3) zero_le_imp_eq_int by blast
  obtain n where n: "len = int n"
    using assms(4) zero_le_imp_eq_int by blast
  define r where "r = take n (drop m d)"
  have rd: "FuseNotebook_read self path len offset = Inr r"
    using assms(2) d by (simp add: FuseNotebook_read_def Let_def slice_nonneg m n r_def)
  have c1: "length d \<le> m \<Longrightarrow> r = []"
    by (simp add: r_def)
  have c2: "length d < m + n \<Longrightarrow> length r = length d - m"
    unfolding r_def take_drop_clip by (rule min_absorb1) arith
  have c3: "m + n \<le> length d \<Longrightarrow> length r = n"
    unfolding r_def take_drop_clip by (rule min_absorb2) arith
  have "map_of (fdata self) (path_name (parse_path path)) = Some d
           \<and> FuseNotebook_read self path len offset = Inr r
           \<and> r = take (nat len) (drop (nat offset) d)
           \<and> (int (length d) \<le> offset \<longrightarrow> r = [])
           \<and> (int (length d) < offset + len \<longrightarrow> length r = length d - nat offset)
           \<and> (offset + len \<le> int (length d) \<longrightarrow> length r = nat len)"
    using d rd c1 c2 c3 by (simp add: m n r_def del: length_take length_drop)
  then show ?thesis by blast
qed

theorem read_clipped_to_content_witness:
  "FuseNotebook_init env_example (lit ''/data/nb.ipynb'') False = Inr projection_example
   \<and> path_name (parse_path (lit ''/nb.ipynb/cell1.py''))
         \<in> set (map fst (fnames projection_example))
   \<and> (0::int) \<le> 5 \<and> (0::int) \<le> 10
   \<and> FuseNotebook_read projection_example (lit ''/nb.ipynb/cell1.py'') 10 5 = Inr ''(1)''
   \<and> int (length ''print(1)'') < 5 + 10
   \<and> length ''(1)'' = length ''print(1)'' - nat 5"
proof -
  have n: "path_name (parse_path (lit ''/nb.ipynb/cell1.py'')) = lit ''cell1.py''"
    by (simp add: path_simps lit_def)
  have m: "lit ''cell1.py'' \<in> set (map fst (fnames projection_example))"
    by (simp add: projection_example_def lit_def)
  have d: "map_of (fdata projection_example) (lit ''cell1.py'') = Some ''print(1)''"
    by (simp add: projection_example_def lit_def)
  from read_clipped_to_content [OF init_example, of "lit ''/nb.ipynb/cell1.py''" 5 10] n m d
  show ?thesis
    using init_example by auto
qed

text \<open>
  C6. For a \<open>FuseNotebook\<close> that its constructor returned and any request path:
  \<open>getattr\<close> raises \<open>FuseOSError(ENOENT)\<close> exactly when the final component of the path
  is not a name of the namespace, and so does \<open>read\<close>; when the final component is a
  name of the namespace, both return a result.
\<close>

theorem notfound_iff_name_absent:
  assumes "FuseNotebook_init ev nbpath rw = Inr self"
  shows "(FuseNotebook_getattr self path = Inl (FuseOSError ENOENT))
           = (path_name (parse_path path) \<notin> set (map fst (fnames self)))
       \<and> (FuseNotebook_read self path len offset = Inl (FuseOSError ENOENT))
           = (path_name (parse_path path) \<notin> set (map fst (fnames self)))
       \<and> (path_name (parse_path path) \<in> set (map fst (fnames self)) \<longrightarrow>
            (\<exists>a. FuseNotebook_getattr self path = Inr a)
          \<and> (\<exists>b. FuseNotebook_read self path len offset = Inr b))"
proof (cases "path_name (parse_path path) \<in> set (map fst (fnames self))")
  case True
  from assms have "map fst (fnames self) = map fst (fdata self)"
    by (rule FuseNotebook_init_keys)
  with True have "path_name (parse_path path) \<in> set (map fst (fdata self))"
    by simp
  then have "\<exists>d. map_of (fdata self) (path_name (parse_path path)) = Some d"
    by (rule key_has_value)
  then obtain d where "map_of (fdata self) (path_name (parse_path path)) = Some d" ..
  with True show ?thesis
    by (simp add: FuseNotebook_getattr_def FuseNotebook_read_def Let_def)
next
  case False
  then show ?thesis
    by (simp add: FuseNotebook_getattr_def FuseNotebook_read_def Let_def)
qed

theorem notfound_iff_name_absent_witness:
  "FuseNotebook_init env_example (lit ''/data/nb.ipynb'') False = Inr projection_example
   \<and> path_name (parse_path (lit ''/nb.ipynb/cell0.md''))
         \<in> set (map fst (fnames projection_example))
   \<and> (\<exists>a. FuseNotebook_getattr projection_example (lit ''/nb.ipynb/cell0.md'') = Inr a)
   \<and> (\<exists>b. FuseNotebook_read projection_example (lit ''/nb.ipynb/cell0.md'') 4 0 = Inr b)
   \<and> path_name (parse_path (lit ''/nb.ipynb/cell7.md''))
         \<notin> set (map fst (fnames projection_example))
   \<and> FuseNotebook_getattr projection_example (lit ''/nb.ipynb/cell7.md'')
         = Inl (FuseOSError ENOENT)
   \<and> FuseNotebook_read projection_example (lit ''/nb.ipynb/cell7.md'') 4 0
         = Inl (FuseOSError ENOENT)"
proof -
  have p: "path_name (parse_path (lit ''/nb.ipynb/cell0.md''))
             \<in> set (map fst (fnames projection_example))"
    by (simp add: path_simps projection_example_def lit_def)
  have a: "path_name (parse_path (lit ''/nb.ipynb/cell7.md''))
             \<notin> set (map fst (fnames projection_example))"
    by (simp add: path_simps projection_example_def lit_def)
  from notfound_iff_name_absent [OF init_example, of "lit ''/nb.ipynb/cell0.md''" 4 0]
    notfound_iff_name_absent [OF init_example, of "lit ''/nb.ipynb/cell7.md''" 4 0] p a
  show ?thesis
    using init_example by simp
qed

section \<open>Directory listings of the router\<close>

text \<open>
  C7. What \<open>FuseNotebookDir.readdir\<close> does for a path whose kind is neither \<open>dir\<close> nor
  \<open>nb\<close>. Under the root \<open>/data\<close> of the example, \<open>/missing\<close> has the kind \<open>None\<close>,
  \<open>/readme.txt\<close> the kind \<open>file\<close> and \<open>/nb.ipynb/cell0.md\<close> the kind \<open>nbcont\<close>; for each
  of them \<open>readdir\<close> returns the empty listing and raises nothing.
\<close>

theorem readdir_other_kinds_yield_nothing:
  "FuseNotebookDir_classify env_example dir_example (lit ''/missing'')
     = (None, lit ''/data/missing'')
   \<and> FuseNotebookDir_readdir env_example dir_example (lit ''/missing'')
     = (Inr [], dir_example)
   \<and> FuseNotebookDir_classify env_example dir_example (lit ''/readme.txt'')
     = (Some (lit ''file''), lit ''/data/readme.txt'')
   \<and> FuseNotebookDir_readdir env_example dir_example (lit ''/readme.txt'')
     = (Inr [], dir_example)
   \<and> FuseNotebookDir_classify env_example dir_example (lit ''/nb.ipynb/cell0.md'')
     = (Some (lit ''nbcont''), lit ''/data/nb.ipynb'')
   \<and> FuseNotebookDir_readdir env_example dir_example (lit ''/nb.ipynb/cell0.md'')
     = (Inr [], dir_example)"
  by (simp add: FuseNotebookDir_readdir_def classify_simps)

section \<open>Construction and caching of projections\<close>

text \<open>
  C8. The router's \<open>_notebook\<close>. When the path is not in the dictionary and reading the
  notebook fails, the call raises (the error of \<open>lstat\<close> if that failed first, else the
  reader's) and the router is unchanged. After any failed construction the next call
  constructs again: in an environment where the constructor now succeeds, it returns
  and stores the new object. When a call has returned an object, every later call for
  the same path returns that object and leaves the router as it is, whatever the
  environment: the file is not read again.
\<close>

theorem notebook_cache:
  "(fspath \<notin> set (map fst (notebooks self)) \<and> nbformat_read ev fspath = Inl e \<longrightarrow>
      FuseNotebookDir_notebook ev self fspath
        = (Inl (case lstat ev (path_str (parse_path fspath)) of Inl e0 \<Rightarrow> e0 | Inr s \<Rightarrow> e),
           self))
   \<and> (fspath \<notin> set (map fst (notebooks self))
        \<and> FuseNotebook_init ev fspath (dir_rw self) = Inl e
        \<and> FuseNotebook_init ev1 fspath (dir_rw self) = Inr n \<longrightarrow>
      FuseNotebookDir_notebook ev1 (snd (FuseNotebookDir_notebook ev self fspath)) fspath
        = (Inr n, self\<lparr>notebooks := AList.update fspath n (notebooks self)\<rparr>))
   \<and> (FuseNotebookDir_notebook ev self fspath = (Inr n, self1) \<longrightarrow>
      (\<forall>ev2. FuseNotebookDir_notebook ev2 self1 fspath = (Inr n, self1)))"
proof (intro conjI impI allI)
  assume "fspath \<notin> set (map fst (notebooks self)) \<and> nbformat_read ev fspath = Inl e"
  then show "FuseNotebookDir_notebook ev self fspath
        = (Inl (case lstat ev (path_str (parse_path fspath)) of Inl e0 \<Rightarrow> e0 | Inr s \<Rightarrow> e),
           self)"
    by (simp add: notebook_uncached init_decode_error)
next
  assume "fspath \<notin> set (map fst (notebooks self))
        \<and> FuseNotebook_init ev fspath (dir_rw self) = Inl e
        \<and> FuseNotebook_init ev1 fspath (dir_rw self) = Inr n"
  then show "FuseNotebookDir_notebook ev1 (snd (FuseNotebookDir_notebook ev self fspath)) fspath
        = (Inr n, self\<lparr>notebooks := AList.update fspath n (notebooks self)\<rparr>)"
    by (simp add: notebook_uncached)
next
  fix ev2
  assume "FuseNotebookDir_notebook ev self fspath = (Inr n, self1)"
  then have "map_of (notebooks self1) fspath = Some n"
    by (rule notebook_success_cached)
  then show "FuseNotebookDir_notebook ev2 self1 fspath = (Inr n, self1)"
    by (rule notebook_cached)
qed

theorem notebook_cache_witness:
  "lit ''/data/broken.ipynb'' \<notin> set (map fst (notebooks dir_example))
   \<and> nbformat_read env_example (lit ''/data/broken.ipynb'') = Inl DecodeError
   \<and> FuseNotebookDir_notebook env_example dir_example (lit ''/data/broken.ipynb'')
       = (Inl DecodeError, dir_example)
   \<and> FuseNotebookDir_notebook env_repaired dir_example (lit ''/data/broken.ipynb'')
       = (Inr (projection_example\<lparr>nb_root := lit ''/data/broken.ipynb''\<rparr>),
          dir_example\<lparr>notebooks :=
            [(lit ''/data/broken.ipynb'',
              projection_example\<lparr>nb_root := lit ''/data/broken.ipynb''\<rparr>)]\<rparr>)
   \<and> FuseNotebookDir_notebook env_example dir_example (lit ''/data/nb.ipynb'')
       = (Inr projection_example,
          dir_example\<lparr>notebooks := [(lit ''/data/nb.ipynb'', projection_example)]\<rparr>)
   \<and> FuseNotebookDir_notebook env_unreadable
         (dir_example\<lparr>notebooks := [(lit ''/data/nb.ipynb'', projection_example)]\<rparr>)
         (lit ''/data/nb.ipynb'')
       = (Inr projection_example,
          dir_example\<lparr>notebooks := [(lit ''/data/nb.ipynb'', projection_example)]\<rparr>)"
proof -
  have k: "\<And>p. p \<notin> set (map fst (notebooks dir_example))"
    by (simp add: dir_example_def FuseNotebookDir_init_def)
  have r: "notebooks dir_example = []" "dir_rw dir_example = False"
    by (simp_all add: dir_example_def FuseNotebookDir_init_def)
  have b: "nbformat_read env_example (lit ''/data/broken.ipynb'') = Inl DecodeError"
    by (simp add: env_example_def lit_def)
  have l: "lstat env_example (path_str (parse_path (lit ''/data/broken.ipynb'')))
             = Inr stat_example"
    by (simp add: env_example_def path_simps lit_def)
  have f: "FuseNotebook_init env_example (lit ''/data/broken.ipynb'') False = Inl DecodeError"
    using b l by (simp add: init_decode_error)
  have g: "FuseNotebook_init env_repaired (lit ''/data/broken.ipynb'') False
             = Inr (projection_example\<lparr>nb_root := lit ''/data/broken.ipynb''\<rparr>)"
    by (simp add: FuseNotebook_init_def loadnb_def env_repaired_def env_example_def
          nb_example_def projection_example_def path_simps eval_simps)
  have c: "FuseNotebookDir_notebook env_example dir_example (lit ''/data/nb.ipynb'')
       = (Inr projection_example,
          dir_example\<lparr>notebooks := [(lit ''/data/nb.ipynb'', projection_example)]\<rparr>)"
    using k by (simp add: notebook_uncached init_example r)
  note A = notebook_cache [of "lit ''/data/broken.ipynb''" dir_example env_example DecodeError
      env_repaired "projection_example\<lparr>nb_root := lit ''/data/broken.ipynb''\<rparr>" dir_example]
  note B = notebook_cache [of "lit ''/data/nb.ipynb''" dir_example env_example DecodeError
      env_repaired projection_example
      "dir_example\<lparr>notebooks := [(lit ''/data/nb.ipynb'', projection_example)]\<rparr>"]
  have a1: "FuseNotebookDir_notebook env_example dir_example (lit ''/data/broken.ipynb'')
       = (Inl DecodeError, dir_example)"
    using A k b l by simp
  have "FuseNotebookDir_notebook env_repaired
          (snd (FuseNotebookDir_notebook env_example dir_example (lit ''/data/broken.ipynb'')))
          (lit ''/data/broken.ipynb'')
       = (Inr (projection_example\<lparr>nb_root := lit ''/data/broken.ipynb''\<rparr>),
          dir_example\<lparr>notebooks :=
            AList.update (lit ''/data/broken.ipynb'')
              (projection_example\<lparr>nb_root := lit ''/data/broken.ipynb''\<rparr>)
              (notebooks dir_example)\<rparr>)"
    using A k f g r by simp
  then have a2: "FuseNotebookDir_notebook env_repaired dir_example (lit ''/data/broken.ipynb'')
       = (Inr (projection_example\<lparr>nb_root := lit ''/data/broken.ipynb''\<rparr>),
          dir_example\<lparr>notebooks :=
            [(lit ''/data/broken.ipynb'',
              projection_example\<lparr>nb_root := lit ''/data/broken.ipynb''\<rparr>)]\<rparr>)"
    by (simp add: a1 r)
  have c2: "FuseNotebookDir_notebook env_unreadable
         (dir_example\<lparr>notebooks := [(lit ''/data/nb.ipynb'', projection_example)]\<rparr>)
         (lit ''/data/nb.ipynb'')
       = (Inr projection_example,
          dir_example\<lparr>notebooks := [(lit ''/data/nb.ipynb'', projection_example)]\<rparr>)"
    using B c by blast
  show ?thesis
    using k b a1 a2 c c2 by simp
qed

section \<open>Attributes of a notebook shown as a directory\<close>

text \<open>
  C9. For a path that \<open>_classify\<close> gives the kind \<open>nb\<close>, with \<open>s\<close> the attributes that
  \<open>lstat\<close> returns for the notebook file: the router's \<open>getattr\<close> returns the mode
  \<open>S_IFDIR | 0o775\<close> (the number 16893, whose file-type bits are those of a directory),
  the size 4096, the link count 1, and the owner, the group and the three timestamps
  of \<open>s\<close>; the router is unchanged.
\<close>

theorem getattr_notebook_root:
  assumes "FuseNotebookDir_classify ev self path = (Some (lit ''nb''), fspath)"
    and "lstat ev (path_str (parse_path fspath)) = Inr s"
  shows "FuseNotebookDir_getattr ev self path =
           (Inr \<lparr>st_atime = st_atime s, st_ctime = st_ctime s, st_gid = st_gid s,
                 st_mode = 16893, st_mtime = st_mtime s, st_nlink = 1, st_size = 4096,
                 st_uid = st_uid s\<rparr>, self)
       \<and> (16893::nat) AND 61440 = S_IFDIR"
  using assms by (simp add: FuseNotebookDir_getattr_def S_IFDIR_def lit_def)

theorem getattr_notebook_root_witness:
  "FuseNotebookDir_classify env_example dir_example (lit ''/nb.ipynb'')
     = (Some (lit ''nb''), lit ''/data/nb.ipynb'')
   \<and> lstat env_example (path_str (parse_path (lit ''/data/nb.ipynb''))) = Inr stat_example
   \<and> FuseNotebookDir_getattr env_example dir_example (lit ''/nb.ipynb'') =
        (Inr \<lparr>st_atime = 1, st_ctime = 2, st_gid = 100, st_mode = 16893, st_mtime = 3,
              st_nlink = 1, st_size = 4096, st_uid = 1000\<rparr>, dir_example)"
proof -
  have c: "FuseNotebookDir_classify env_example dir_example (lit ''/nb.ipynb'')
     = (Some (lit ''nb''), lit ''/data/nb.ipynb'')"
    by (simp add: classify_simps)
  have l: "lstat env_example (path_str (parse_path (lit ''/data/nb.ipynb''))) = Inr stat_example"
    by (simp add: env_example_def path_simps lit_def)
  from getattr_notebook_root [OF c l] c l show ?thesis
    by (simp add: stat_example_def)
qed

section \<open>Only the final component of a request path matters\<close>

text \<open>
  C10. \<open>FuseNotebook.getattr\<close> and \<open>FuseNotebook.read\<close> depend on the request path only
  through its final component \<open>Path(path).name\<close>: two paths with the same final
  component get the same attributes and, for the same length and offset, the same
  bytes (or the same error). In particular a name \<open>n\<close> that is one component (no
  separator, not empty, not \<open>.\<close>) gets the same answers behind any two directory
  prefixes \<open>d1\<close> and \<open>d2\<close>.
\<close>

theorem same_name_same_answer:
  "(path_name (parse_path p) = path_name (parse_path q) \<longrightarrow>
      FuseNotebook_getattr self p = FuseNotebook_getattr self q
    \<and> FuseNotebook_read self p len offset = FuseNotebook_read self q len offset)
   \<and> (sep \<notin> set n \<and> n \<noteq> [] \<and> n \<noteq> [dot] \<longrightarrow>
      FuseNotebook_getattr self (d1 @ sep # n) = FuseNotebook_getattr self (d2 @ sep # n)
    \<and> FuseNotebook_read self (d1 @ sep # n) len offset
        = FuseNotebook_read self (d2 @ sep # n) len offset)"
proof (intro conjI impI)
  assume "path_name (parse_path p) = path_name (parse_path q)"
  then show "FuseNotebook_getattr self p = FuseNotebook_getattr self q"
    by (simp add: FuseNotebook_getattr_def)
next
  assume "path_name (parse_path p) = path_name (parse_path q)"
  then show "FuseNotebook_read self p len offset = FuseNotebook_read self q len offset"
    by (simp add: FuseNotebook_read_def)
next
  assume "sep \<notin> set n \<and> n \<noteq> [] \<and> n \<noteq> [dot]"
  then have "path_name (parse_path (d1 @ sep # n)) = path_name (parse_path (d2 @ sep # n))"
    by (simp add: path_name_final_component)
  then show "FuseNotebook_getattr self (d1 @ sep # n) = FuseNotebook_getattr self (d2 @ sep # n)"
    by (simp add: FuseNotebook_getattr_def)
next
  assume "sep \<notin> set n \<and> n \<noteq> [] \<and> n \<noteq> [dot]"
  then have "path_name (parse_path (d1 @ sep # n)) = path_name (parse_path (d2 @ sep # n))"
    by (simp add: path_name_final_component)
  then show "FuseNotebook_read self (d1 @ sep # n) len offset
        = FuseNotebook_read self (d2 @ sep # n) len offset"
    by (simp add: FuseNotebook_read_def)
qed

theorem same_name_same_answer_witness:
  "path_name (parse_path (lit ''/nb.ipynb/cell0.md''))
     = path_name (parse_path (lit ''/elsewhere/deeper/cell0.md''))
   \<and> FuseNotebook_getattr projection_example (lit ''/nb.ipynb/cell0.md'')
     = FuseNotebook_getattr projection_example (lit ''/elsewhere/deeper/cell0.md'')
   \<and> FuseNotebook_read projection_example (lit ''/elsewhere/deeper/cell0.md'') 4 2
     = FuseNotebook_read projection_example (lit ''/nb.ipynb/cell0.md'') 4 2
   \<and> FuseNotebook_read projection_example (lit ''/nb.ipynb/cell0.md'') 4 2 = Inr ''Titl''"
proof -
  have e: "path_name (parse_path (lit ''/nb.ipynb/cell0.md''))
     = path_name (parse_path (lit ''/elsewhere/deeper/cell0.md''))"
    by (simp add: path_simps lit_def)
  have r: "FuseNotebook_read projection_example (lit ''/nb.ipynb/cell0.md'') 4 2 = Inr ''Titl''"
    by (simp add: FuseNotebook_read_def projection_example_def path_simps lit_def
          slice_def slice_bound_def)
  from same_name_same_answer [of "lit ''/nb.ipynb/cell0.md''" "lit ''/elsewhere/deeper/cell0.md''"
      projection_example 4 2] e r
  show ?thesis by simp
qed

end
